theory Spec2Isabelle
  imports Main "HOL-Library.Word" "HOL-Library.AList"
begin

section \<open>JavaScript strings and values\<close>

text \<open>
  A JavaScript string is a \<^typ>\<open>string\<close>: a list of code units, here the code units
  below 256. The string methods the sources call are written out as list functions.
\<close>

type_synonym byte = "8 word"

text \<open>\<^verbatim>\<open>s.split(sep)\<close> for a one-character separator: one more part than separators.\<close>

fun js_split :: "char \<Rightarrow> string \<Rightarrow> string list" where
  "js_split sep [] = [[]]"
| "js_split sep (c # cs) =
     (if c = sep then [] # js_split sep cs
      else (case js_split sep cs of [] \<Rightarrow> [[c]] | p # ps \<Rightarrow> (c # p) # ps))"

text \<open>White space of \<^verbatim>\<open>trim()\<close> and of the regular expression class \<^verbatim>\<open>\s\<close>:
  TAB, LF, VT, FF, CR, SP and NBSP.\<close>

definition is_space :: "char \<Rightarrow> bool" where
  "is_space c = ((of_char c :: nat) \<in> {9, 10, 11, 12, 13, 32, 160})"

definition js_trim :: "string \<Rightarrow> string" where
  "js_trim s = rev (dropWhile is_space (rev (dropWhile is_space s)))"

definition startsWith :: "string \<Rightarrow> string \<Rightarrow> bool" where
  "startsWith s p = (take (length p) s = p)"

definition is_upper :: "char \<Rightarrow> bool" where
  "is_upper c = (let n = (of_char c :: nat) in (65 \<le> n \<and> n \<le> 90))"

definition is_lower :: "char \<Rightarrow> bool" where
  "is_lower c = (let n = (of_char c :: nat) in (97 \<le> n \<and> n \<le> 122))"

definition is_digit :: "char \<Rightarrow> bool" where
  "is_digit c = (let n = (of_char c :: nat) in (48 \<le> n \<and> n \<le> 57))"

definition lower_char :: "char \<Rightarrow> char" where
  "lower_char c =
     (let n = (of_char c :: nat)
      in if (65 \<le> n \<and> n \<le> 90) \<or> (192 \<le> n \<and> n \<le> 222 \<and> n \<noteq> 215)
         then char_of (n + 32) else c)"

definition toLowerCase :: "string \<Rightarrow> string" where
  "toLowerCase s = map lower_char s"

text \<open>A value of type string-or-null is truthy when it is a non-empty string.\<close>

fun truthy :: "string option \<Rightarrow> bool" where
  "truthy None = False"
| "truthy (Some s) = (s \<noteq> [])"

text \<open>
  The values handed to the codec: the JSON values and \<^verbatim>\<open>undefined\<close>. Numbers are kept
  abstract (type \<open>'n\<close>); an object is the list of its own properties in enumeration order.
\<close>

datatype 'n jsvalue =
    JUndefined
  | JNull
  | JBool bool
  | JNum 'n
  | JStr string
  | JArr "'n jsvalue list"
  | JObj "(string \<times> 'n jsvalue) list"

fun typeof :: "'n jsvalue \<Rightarrow> string" where
  "typeof JUndefined = ''undefined''"
| "typeof JNull = ''object''"
| "typeof (JBool b) = ''boolean''"
| "typeof (JNum n) = ''number''"
| "typeof (JStr s) = ''string''"
| "typeof (JArr xs) = ''object''"
| "typeof (JObj kvs) = ''object''"

text \<open>Property access \<^verbatim>\<open>v.name\<close> on an object.\<close>

fun prop_of :: "'n jsvalue \<Rightarrow> string \<Rightarrow> 'n jsvalue option" where
  "prop_of (JObj kvs) k = map_of kvs k"
| "prop_of v k = None"

section \<open>The runtime the sources call\<close>

text \<open>
  CryptoJS and the JSON object are not part of the repository. Their functions are the
  fields of a record that every function of the model takes as its first argument;
  a field of option type is \<open>None\<close> where the call throws.

  \<^item> \<open>PBKDF2 password salt keySize iterations\<close>: the derived key, as
    \<^verbatim>\<open>key.toString()\<close> prints it;
  \<^item> \<open>AES_encrypt message key iv rnd\<close>: \<^verbatim>\<open>CryptoJS.AES.encrypt(...).toString()\<close> in CBC
    mode with PKCS7 padding; \<open>rnd\<close> is the random source it may draw from;
  \<^item> \<open>AES_decrypt ciphertext key iv\<close>:
    \<^verbatim>\<open>CryptoJS.AES.decrypt(...).toString(CryptoJS.enc.Utf8)\<close>;
  \<^item> \<open>Hex_parse\<close>: \<^verbatim>\<open>CryptoJS.enc.Hex.parse\<close>;
  \<^item> \<open>JSON_stringify\<close>, \<open>JSON_parse\<close>: the JSON object;
  \<^item> \<open>Number_toString\<close>: \<^verbatim>\<open>String(n)\<close> for a number.
\<close>

record 'n runtime =
  PBKDF2 :: "string \<Rightarrow> string \<Rightarrow> nat \<Rightarrow> nat \<Rightarrow> string"
  AES_encrypt :: "string \<Rightarrow> string \<Rightarrow> byte list \<Rightarrow> (nat \<Rightarrow> byte) \<Rightarrow> string option"
  AES_decrypt :: "string \<Rightarrow> string \<Rightarrow> byte list \<Rightarrow> string option"
  Hex_parse :: "string \<Rightarrow> byte list"
  JSON_stringify :: "'n jsvalue \<Rightarrow> string option"
  JSON_parse :: "string \<Rightarrow> 'n jsvalue option"
  Number_toString :: "'n \<Rightarrow> string"

text \<open>\<^verbatim>\<open>String(data)\<close>. An array prints its elements separated by commas, \<^verbatim>\<open>null\<close>
  and \<^verbatim>\<open>undefined\<close> elements as nothing.\<close>

fun join :: "string \<Rightarrow> string list \<Rightarrow> string" where
  "join sep [] = []"
| "join sep [x] = x"
| "join sep (x # y # ys) = x @ sep @ join sep (y # ys)"

fun String_js :: "'n runtime \<Rightarrow> 'n jsvalue \<Rightarrow> string" where
  "String_js L JUndefined = ''undefined''"
| "String_js L JNull = ''null''"
| "String_js L (JBool b) = (if b then ''true'' else ''false'')"
| "String_js L (JNum n) = Number_toString L n"
| "String_js L (JStr s) = s"
| "String_js L (JArr xs) =
     join '','' (map (\<lambda>x. if x = JNull \<or> x = JUndefined then [] else String_js L x) xs)"
| "String_js L (JObj kvs) = ''[object Object]''"

text \<open>\<^verbatim>\<open>WordArray.toString()\<close>: two lower-case hexadecimal digits per byte.\<close>

definition hex_digit :: "nat \<Rightarrow> char" where
  "hex_digit n = ''0123456789abcdef'' ! (n mod 16)"

definition Hex_stringify :: "byte list \<Rightarrow> string" where
  "Hex_stringify bs = concat (map (\<lambda>b. [hex_digit (unat b div 16), hex_digit (unat b mod 16)]) bs)"

text \<open>Reading hexadecimal: two digits per byte.\<close>

definition hex_value :: "char \<Rightarrow> nat" where
  "hex_value c =
     (let n = (of_char c :: nat)
      in if 48 \<le> n \<and> n \<le> 57 then n - 48
         else if 97 \<le> n \<and> n \<le> 102 then n - 87
         else if 65 \<le> n \<and> n \<le> 70 then n - 55
         else 0)"

fun hex_decode :: "string \<Rightarrow> byte list" where
  "hex_decode (a # b # cs) = of_nat (hex_value a * 16 + hex_value b) # hex_decode cs"
| "hex_decode cs = []"

definition is_hex_digit :: "char \<Rightarrow> bool" where
  "is_hex_digit c = (c \<in> set ''0123456789abcdef'')"

text \<open>\<^verbatim>\<open>CryptoJS.lib.WordArray.random(n)\<close>: the first \<open>n\<close> bytes of the random source.\<close>

definition WordArray_random :: "nat \<Rightarrow> (nat \<Rightarrow> byte) \<Rightarrow> byte list" where
  "WordArray_random n rnd = map rnd [0..<n]"

section \<open>encryption.js\<close>

datatype error = Error string

definition deriveKeyFromPassword :: "'n runtime \<Rightarrow> string \<Rightarrow> string option \<Rightarrow> string" where
  "deriveKeyFromPassword L password salt =
     PBKDF2 L password (case salt of None \<Rightarrow> ''greenville_cash_salt'' | Some s \<Rightarrow> s)
       (256 div 32) 10000"

definition encryptData ::
  "'n runtime \<Rightarrow> (nat \<Rightarrow> byte) \<Rightarrow> 'n jsvalue \<Rightarrow> string \<Rightarrow> error + string" where
  "encryptData L rnd data password =
     (case (if typeof data = ''object'' then JSON_stringify L data
            else Some (String_js L data)) of
        None \<Rightarrow> Inl (Error ''Failed to encrypt data'')
      | Some dataStr \<Rightarrow>
          (let key = deriveKeyFromPassword L password None;
               iv = WordArray_random (128 div 8) rnd
           in case AES_encrypt L dataStr key iv rnd of
                None \<Rightarrow> Inl (Error ''Failed to encrypt data'')
              | Some encrypted \<Rightarrow> Inr (Hex_stringify iv @ '':'' @ encrypted)))"

text \<open>The body of \<^verbatim>\<open>decryptData\<close>'s outer \<^verbatim>\<open>try\<close>, with the errors it throws.\<close>

definition decryptData_try :: "'n runtime \<Rightarrow> string \<Rightarrow> string \<Rightarrow> error + 'n jsvalue" where
  "decryptData_try L encryptedData password =
     (let parts = js_split CHR '':'' encryptedData
      in if length parts \<noteq> 2 then Inl (Error ''Invalid encrypted data format'')
         else
           (let iv = Hex_parse L (parts ! 0);
                ciphertext = parts ! 1;
                key = deriveKeyFromPassword L password None
            in case AES_decrypt L ciphertext key iv of
                 None \<Rightarrow> Inl (Error ''Malformed UTF-8 data'')
               | Some decryptedStr \<Rightarrow>
                   if decryptedStr = []
                   then Inl (Error ''Decryption failed - wrong password or corrupted data'')
                   else (case JSON_parse L decryptedStr of
                           Some v \<Rightarrow> Inr v
                         | None \<Rightarrow> Inr (JStr decryptedStr))))"

text \<open>The outer \<^verbatim>\<open>catch\<close> replaces every error by one message.\<close>

definition decryptData :: "'n runtime \<Rightarrow> string \<Rightarrow> string \<Rightarrow> error + 'n jsvalue" where
  "decryptData L encryptedData password =
     (case decryptData_try L encryptedData password of
        Inl e \<Rightarrow> Inl (Error ''Failed to decrypt data'')
      | Inr v \<Rightarrow> Inr v)"

subsection \<open>The browser, and the session key cache\<close>

text \<open>
  The browser as the sources see it: the two storage areas, the cookie jar (name and
  value of each cookie; every cookie of the application has path \<^verbatim>\<open>/\<close>), the
  notifications shown, and the page a handler has scheduled a redirect to.
\<close>

record browser =
  localStorage :: "string \<rightharpoonup> string"
  sessionStorage :: "string \<rightharpoonup> string"
  cookies :: "(string \<times> string) list"
  notifications :: "(string \<times> string) list"
  location :: "string option"

definition storeSessionKey :: "string \<Rightarrow> browser \<Rightarrow> browser" where
  "storeSessionKey key st =
     st\<lparr>sessionStorage := (sessionStorage st)(''gcash_session_key'' \<mapsto> key)\<rparr>"

definition getSessionKey :: "browser \<Rightarrow> string option" where
  "getSessionKey st = sessionStorage st ''gcash_session_key''"

definition clearSessionKey :: "browser \<Rightarrow> browser" where
  "clearSessionKey st =
     st\<lparr>sessionStorage := (sessionStorage st)(''gcash_session_key'' := None)\<rparr>"

section \<open>main.js: validation helpers and notifications\<close>

definition showNotification :: "string \<Rightarrow> string \<Rightarrow> browser \<Rightarrow> browser" where
  "showNotification message type st =
     st\<lparr>notifications := notifications st @ [(message, type)]\<rparr>"

text \<open>
  \<^verbatim>\<open>/^[^\s@]+@[^\s@]+\.[^\s@]+$/.test(email)\<close>: no white space, exactly one \<^verbatim>\<open>@\<close>,
  something before it, and after it a dot that is neither first nor last.
\<close>

definition isValidEmail :: "string \<Rightarrow> bool" where
  "isValidEmail email =
     (case js_split CHR ''@'' email of
        [l, d] \<Rightarrow> l \<noteq> [] \<and> \<not> list_ex is_space email \<and> CHR ''.'' \<in> set (butlast (tl d))
      | _ \<Rightarrow> False)"

record password_strength =
  isValid :: bool
  score :: nat
  feedback :: string

definition validatePasswordStrength :: "string \<Rightarrow> password_strength" where
  "validatePasswordStrength password =
     (if length password < 8
      then \<lparr>isValid = False, score = 0,
            feedback = ''Password should be at least 8 characters long''\<rparr>
      else
        (let score =
               (if list_ex is_lower password then 1 else 0)
             + (if list_ex is_upper password then 1 else 0)
             + (if list_ex is_digit password then 1 else 0)
             + (if list_ex (\<lambda>c. \<not> is_upper c \<and> \<not> is_lower c \<and> \<not> is_digit c) password
                then 1 else (0::nat))
         in if score \<le> 1 then \<lparr>isValid = False, score = score, feedback = ''Weak password''\<rparr>
            else if score = 2
            then \<lparr>isValid = True, score = score, feedback = ''Fair password''\<rparr>
            else if score = 3
            then \<lparr>isValid = True, score = score, feedback = ''Good password''\<rparr>
            else \<lparr>isValid = True, score = score, feedback = ''Strong password''\<rparr>))"

section \<open>storage.js\<close>

text \<open>
  The remote API: a request is answered by a network error or by a response with its
  status and, for the body, \<^verbatim>\<open>String((await response.json()).id)\<close>, \<open>None\<close> where
  reading it throws. The network is any function from requests to answers.
\<close>

datatype http_method = GET | POST | PATCH

record request =
  req_method :: http_method
  req_url :: string
  req_authorization :: string
  req_body :: "string option"

datatype fetch_result = NetworkError | Response nat "string option"

definition response_ok :: "nat \<Rightarrow> bool" where
  "response_ok status = (200 \<le> status \<and> status \<le> 299)"

definition user_key :: "string \<Rightarrow> string" where
  "user_key email = ''gcash_user_'' @ email"

text \<open>\<^verbatim>\<open>currentUserEmail.replace(/[^a-z0-9]/gi, '_').toLowerCase()\<close>\<close>

definition safeFilename :: "string \<Rightarrow> string" where
  "safeFilename email =
     toLowerCase (map (\<lambda>c. if is_lower c \<or> is_upper c \<or> is_digit c then c else CHR ''_'') email)"

definition gistData :: "string \<Rightarrow> string \<Rightarrow> 'n jsvalue" where
  "gistData filename encryptedData =
     JObj [(''description'', JStr ''Greenville Cash Encrypted Backup''),
           (''public'', JBool False),
           (''files'', JObj [(filename @ ''.encrypted'', JObj [(''content'', JStr encryptedData)])])]"

text \<open>Every exit of \<^verbatim>\<open>backupUserData\<close> through its \<^verbatim>\<open>catch\<close> is the result
  \<open>False\<close> with the storage as it was when the error was thrown.\<close>

definition backupUserData ::
  "'n runtime \<Rightarrow> (request \<Rightarrow> fetch_result) \<Rightarrow> string \<Rightarrow> string \<Rightarrow> browser \<Rightarrow> bool \<times> browser" where
  "backupUserData L net now encryptedData st =
     (if localStorage st ''gcash_backup_enabled'' \<noteq> Some ''true'' then (False, st)
      else case localStorage st ''gcash_github_token'' of
        None \<Rightarrow> (False, st)
      | Some githubToken \<Rightarrow>
        if githubToken = [] then (False, st)
        else case localStorage st ''gcash_current_user'' of
          None \<Rightarrow> (False, st)
        | Some currentUserEmail \<Rightarrow>
          (case JSON_stringify L (gistData (safeFilename currentUserEmail) encryptedData) of
             None \<Rightarrow> (False, st)
           | Some body \<Rightarrow>
             (case (case localStorage st ''gcash_backup_gist_id'' of
                      None \<Rightarrow> None
                    | Some g \<Rightarrow> if g = [] then None else Some g) of
                Some gistId \<Rightarrow>
                  (case net \<lparr>req_method = PATCH,
                             req_url = ''https://api.github.com/gists/'' @ gistId,
                             req_authorization = ''token '' @ githubToken,
                             req_body = Some body\<rparr> of
                     NetworkError \<Rightarrow> (False, st)
                   | Response status gist \<Rightarrow>
                       if \<not> response_ok status then (False, st)
                       else (True, st\<lparr>localStorage :=
                                         (localStorage st)(''gcash_last_backup'' \<mapsto> now)\<rparr>))
              | None \<Rightarrow>
                  (case net \<lparr>req_method = POST,
                             req_url = ''https://api.github.com/gists'',
                             req_authorization = ''token '' @ githubToken,
                             req_body = Some body\<rparr> of
                     NetworkError \<Rightarrow> (False, st)
                   | Response status gist \<Rightarrow>
                       if \<not> response_ok status then (False, st)
                       else (case gist of
                               None \<Rightarrow> (False, st)
                             | Some newId \<Rightarrow>
                                 (True, st\<lparr>localStorage :=
                                            (localStorage st)
                                              (''gcash_backup_gist_id'' \<mapsto> newId,
                                               ''gcash_last_backup'' \<mapsto> now)\<rparr>))))))"

definition saveUserData ::
  "'n runtime \<Rightarrow> (request \<Rightarrow> fetch_result) \<Rightarrow> (nat \<Rightarrow> byte) \<Rightarrow> string \<Rightarrow> 'n jsvalue \<Rightarrow> browser
     \<Rightarrow> bool \<times> browser" where
  "saveUserData L net rnd now userData st =
     (case localStorage st ''gcash_current_user'' of
        None \<Rightarrow> (False, st)
      | Some currentUserEmail \<Rightarrow>
        if currentUserEmail = [] then (False, st)
        else case getSessionKey st of
          None \<Rightarrow> (False, st)
        | Some sessionKey \<Rightarrow>
          if sessionKey = [] then (False, st)
          else case encryptData L rnd userData sessionKey of
            Inl e \<Rightarrow> (False, st)
          | Inr encryptedData \<Rightarrow>
              (let st1 = st\<lparr>localStorage :=
                             (localStorage st)(user_key currentUserEmail \<mapsto> encryptedData)\<rparr>
               in (True, snd (backupUserData L net now encryptedData st1))))"

text \<open>\<^verbatim>\<open>loadUserData\<close> returns the user data or \<^verbatim>\<open>null\<close>.\<close>

definition loadUserData :: "'n runtime \<Rightarrow> browser \<Rightarrow> 'n jsvalue" where
  "loadUserData L st =
     (case localStorage st ''gcash_current_user'' of
        None \<Rightarrow> JNull
      | Some currentUserEmail \<Rightarrow>
        if currentUserEmail = [] then JNull
        else case localStorage st (user_key currentUserEmail) of
          None \<Rightarrow> JNull
        | Some encryptedData \<Rightarrow>
          if encryptedData = [] then JNull
          else case getSessionKey st of
            None \<Rightarrow> JNull
          | Some sessionKey \<Rightarrow>
            if sessionKey = [] then JNull
            else case decryptData L encryptedData sessionKey of
              Inl e \<Rightarrow> JNull
            | Inr userData \<Rightarrow> userData)"

section \<open>auth.js\<close>

text \<open>
  \<^verbatim>\<open>document.cookie\<close>. Reading it gives the cookies as \<^verbatim>\<open>name=value\<close>, separated by
  \<^verbatim>\<open>"; "\<close>. Assigning \<^verbatim>\<open>name=value; expires=t; path=/\<close> stores the cookie, or removes
  the cookie of that name when \<open>t\<close> is not after the clock (times in milliseconds since
  1 January 1970).
\<close>

definition document_cookie :: "browser \<Rightarrow> string" where
  "document_cookie st = join ''; '' (map (\<lambda>(n, v). n @ ''='' @ v) (cookies st))"

definition assign_cookie :: "nat \<Rightarrow> string \<Rightarrow> string \<Rightarrow> nat \<Rightarrow> browser \<Rightarrow> browser" where
  "assign_cookie now name v expires st =
     st\<lparr>cookies := (if expires \<le> now then AList.delete name (cookies st)
                     else AList.update name v (cookies st))\<rparr>"

text \<open>The fields of the signup form as \<^verbatim>\<open>handleSignup\<close> reads them.\<close>

record signup_form =
  form_fullname :: string
  form_email :: string
  form_password :: string
  form_confirm_password :: string
  form_terms :: bool

definition signup_userData :: "string \<Rightarrow> string \<Rightarrow> string \<Rightarrow> 'n jsvalue" where
  "signup_userData fullname_in email_in createdAt =
     JObj [(''fullname'', JStr fullname_in),
           (''email'', JStr (toLowerCase email_in)),
           (''createdAt'', JStr createdAt),
           (''accounts'', JArr []),
           (''transactions'', JArr []),
           (''budgets'', JArr []),
           (''settings'', JObj [(''currency'', JStr ''USD''),
                                (''theme'', JStr ''light''),
                                (''notifications'', JBool True)])]"

text \<open>
  \<open>now\<close> is \<^verbatim>\<open>new Date().toISOString()\<close>. The account is created in the callback of
  the dynamic import: an error thrown there is a rejected promise that nothing handles,
  so the page stays as it is.
\<close>

definition handleSignup ::
  "'n runtime \<Rightarrow> (nat \<Rightarrow> byte) \<Rightarrow> string \<Rightarrow> signup_form \<Rightarrow> browser \<Rightarrow> browser" where
  "handleSignup L rnd now f st =
     (if form_fullname f = [] \<or> length (js_trim (form_fullname f)) < 2
      then showNotification ''Please enter your full name'' ''error'' st
      else if \<not> isValidEmail (form_email f)
      then showNotification ''Please enter a valid email address'' ''error'' st
      else if \<not> isValid (validatePasswordStrength (form_password f))
      then showNotification (feedback (validatePasswordStrength (form_password f))) ''error'' st
      else if form_password f \<noteq> form_confirm_password f
      then showNotification ''Passwords do not match'' ''error'' st
      else if \<not> form_terms f
      then showNotification ''You must accept the Terms and Conditions'' ''error'' st
      else if truthy (localStorage st (user_key (toLowerCase (form_email f))))
      then showNotification ''This email is already registered'' ''error'' st
      else
        (case encryptData L rnd (signup_userData (form_fullname f) (form_email f) now)
                (form_password f) of
           Inl e \<Rightarrow> st
         | Inr encryptedUserData \<Rightarrow>
             (showNotification ''Account created successfully! Redirecting...'' ''success''
                (st\<lparr>localStorage :=
                      (localStorage st)
                        (user_key (toLowerCase (form_email f)) \<mapsto> encryptedUserData,
                         ''gcash_logged_in'' \<mapsto> ''true'',
                         ''gcash_current_user'' \<mapsto> toLowerCase (form_email f))\<rparr>))
               \<lparr>location := Some ''dashboard.html''\<rparr>))"

text \<open>\<open>now\<close> is the clock when the cookie is assigned; the cookie's expiry date is
  1 January 1970.\<close>

definition handleLogout :: "nat \<Rightarrow> browser \<Rightarrow> browser" where
  "handleLogout now st =
     (let st1 = st\<lparr>localStorage :=
                    (localStorage st)(''gcash_logged_in'' := None,
                                      ''gcash_current_user'' := None)\<rparr>;
          st2 = assign_cookie now ''gcash_remember'' [] 0 st1;
          st3 = showNotification ''You have been logged out successfully'' ''info'' st2
      in st3\<lparr>location := Some ''index.html''\<rparr>)"

text \<open>The loop of \<^verbatim>\<open>checkRememberMeCookie\<close> over the parts of \<^verbatim>\<open>document.cookie\<close>.\<close>

fun checkRememberMeCookie_loop :: "string list \<Rightarrow> browser \<Rightarrow> bool \<times> browser" where
  "checkRememberMeCookie_loop [] st = (False, st)"
| "checkRememberMeCookie_loop (c # cs) st =
     (let cookie = js_trim c
      in if startsWith cookie ''gcash_remember=''
         then
           (let email_in = drop (length ''gcash_remember='') cookie
            in if email_in \<noteq> [] \<and> truthy (localStorage st (user_key email_in))
               then (True, st\<lparr>localStorage :=
                               (localStorage st)(''gcash_logged_in'' \<mapsto> ''true'',
                                                 ''gcash_current_user'' \<mapsto> email_in)\<rparr>)
               else checkRememberMeCookie_loop cs st)
         else checkRememberMeCookie_loop cs st)"

definition checkRememberMeCookie :: "browser \<Rightarrow> bool \<times> browser" where
  "checkRememberMeCookie st =
     checkRememberMeCookie_loop (js_split CHR '';'' (document_cookie st)) st"

section \<open>What the theorems ask of the runtime\<close>

text \<open>
  The properties of CryptoJS and of JSON that the theorems name as hypotheses; each
  theorem lists the ones it needs.
  \<^item> \<open>encrypt_succeeds\<close>: encryption of a string under a string key does not throw.
  \<^item> \<open>ciphertext_is_base64\<close>: \<^verbatim>\<open>encrypted.toString()\<close> is the OpenSSL format in
    Base64: not empty, and over the Base64 alphabet.
  \<^item> \<open>decrypt_inverts_encrypt\<close>: decryption under the same key and IV gives the
    message back.
  \<^item> \<open>hex_parse_inverts\<close>: \<^verbatim>\<open>Hex.parse\<close> reads back what \<^verbatim>\<open>toString()\<close> printed.
  \<^item> \<open>json_parse_rejects_empty\<close>: \<^verbatim>\<open>JSON.parse("")\<close> throws.
  \<^item> \<open>hmac_key_zero_padded\<close>: PBKDF2 reads the password as an HMAC key, and HMAC
    extends a key shorter than its block of 64 bytes with zero bytes, so a zero byte
    appended to such a key changes nothing (a password of fewer than 32 code units has
    fewer than 64 bytes in UTF-8).
  \<^item> \<open>JSON_serializable L v\<close>: \<^verbatim>\<open>JSON.stringify(v)\<close> is a text that \<^verbatim>\<open>JSON.parse\<close>
    reads back as \<open>v\<close>.
\<close>

definition base64_char :: "char \<Rightarrow> bool" where
  "base64_char c =
     (is_upper c \<or> is_lower c \<or> is_digit c \<or> c = CHR ''+'' \<or> c = CHR ''/'' \<or> c = CHR ''='')"

definition encrypt_succeeds :: "'n runtime \<Rightarrow> bool" where
  "encrypt_succeeds L = (\<forall>m k iv r. AES_encrypt L m k iv r \<noteq> None)"

definition ciphertext_is_base64 :: "'n runtime \<Rightarrow> bool" where
  "ciphertext_is_base64 L =
     (\<forall>m k iv r c. AES_encrypt L m k iv r = Some c \<longrightarrow> c \<noteq> [] \<and> list_all base64_char c)"

definition decrypt_inverts_encrypt :: "'n runtime \<Rightarrow> bool" where
  "decrypt_inverts_encrypt L =
     (\<forall>m k iv r c. AES_encrypt L m k iv r = Some c \<longrightarrow> AES_decrypt L c k iv = Some m)"

definition hex_parse_inverts :: "'n runtime \<Rightarrow> bool" where
  "hex_parse_inverts L = (\<forall>bs. Hex_parse L (Hex_stringify bs) = bs)"

definition json_parse_rejects_empty :: "'n runtime \<Rightarrow> bool" where
  "json_parse_rejects_empty L = (JSON_parse L [] = None)"

definition hmac_key_zero_padded :: "'n runtime \<Rightarrow> bool" where
  "hmac_key_zero_padded L =
     (\<forall>pw salt ks it. length pw < 32 \<longrightarrow>
        PBKDF2 L (pw @ [CHR 0x00]) salt ks it = PBKDF2 L pw salt ks it)"

definition JSON_serializable :: "'n runtime \<Rightarrow> 'n jsvalue \<Rightarrow> bool" where
  "JSON_serializable L v =
     (case JSON_stringify L v of None \<Rightarrow> False | Some t \<Rightarrow> JSON_parse L t = Some v)"

section \<open>A small runtime to run the model on\<close>

text \<open>
  An executable runtime with the properties above, on which the theorems are
  instantiated: a key derivation that drops trailing zero bytes, a cipher that prints
  key and message in hexadecimal, and a reader and printer for JSON texts without white
  space.
\<close>

definition byte_of_char :: "char \<Rightarrow> byte" where
  "byte_of_char c = of_nat (of_char c)"

definition char_of_byte :: "byte \<Rightarrow> char" where
  "char_of_byte b = char_of (unat b)"

definition toy_PBKDF2 :: "string \<Rightarrow> string \<Rightarrow> nat \<Rightarrow> nat \<Rightarrow> string" where
  "toy_PBKDF2 pw salt keySize iterations =
     Hex_stringify (map byte_of_char (rev (dropWhile (\<lambda>c. c = CHR 0x00) (rev pw)) @ salt))"

definition toy_AES_encrypt ::
  "string \<Rightarrow> string \<Rightarrow> byte list \<Rightarrow> (nat \<Rightarrow> byte) \<Rightarrow> string option" where
  "toy_AES_encrypt m k iv rnd =
     Some (''U'' @ Hex_stringify (map byte_of_char k) @ ''Z''
             @ Hex_stringify (map byte_of_char m))"

definition toy_AES_decrypt :: "string \<Rightarrow> string \<Rightarrow> byte list \<Rightarrow> string option" where
  "toy_AES_decrypt c k iv =
     (case c of
        [] \<Rightarrow> None
      | x # rest \<Rightarrow>
          if x \<noteq> CHR ''U'' then None
          else if takeWhile (\<lambda>c. c \<noteq> CHR ''Z'') rest = Hex_stringify (map byte_of_char k)
          then Some (map char_of_byte
                       (hex_decode (drop 1 (dropWhile (\<lambda>c. c \<noteq> CHR ''Z'') rest))))
          else Some [])"

fun toy_decimal :: "nat \<Rightarrow> string" where
  "toy_decimal n =
     (if n < 10 then [char_of (48 + n)]
      else toy_decimal (n div 10) @ [char_of (48 + n mod 10)])"

definition toy_quote :: "string \<Rightarrow> string" where
  "toy_quote s =
     [CHR 0x22]
     @ concat (map (\<lambda>c. if c = CHR 0x22 \<or> c = CHR 0x5C then [CHR 0x5C, c] else [c]) s)
     @ [CHR 0x22]"

fun toy_text :: "nat jsvalue \<Rightarrow> string" where
  "toy_text JUndefined = ''null''"
| "toy_text JNull = ''null''"
| "toy_text (JBool b) = (if b then ''true'' else ''false'')"
| "toy_text (JNum n) = toy_decimal n"
| "toy_text (JStr s) = toy_quote s"
| "toy_text (JArr xs) = ''['' @ join '','' (map toy_text xs) @ '']''"
| "toy_text (JObj kvs) =
     ''{'' @ join '','' (map (\<lambda>(k, v). toy_quote k @ '':'' @ toy_text v)
                            (filter (\<lambda>(k, v). v \<noteq> JUndefined) kvs)) @ ''}''"

definition toy_JSON_stringify :: "nat jsvalue \<Rightarrow> string option" where
  "toy_JSON_stringify v = (if v = JUndefined then None else Some (toy_text v))"

text \<open>The rest of a string literal after its opening quote, and what follows it.\<close>

fun toy_parse_string :: "string \<Rightarrow> (string \<times> string) option" where
  "toy_parse_string [] = None"
| "toy_parse_string (c # cs) =
     (if c = CHR 0x22 then Some ([], cs)
      else if c = CHR 0x5C
      then (case cs of
              [] \<Rightarrow> None
            | d # ds \<Rightarrow> map_option (\<lambda>(t, r). (d # t, r)) (toy_parse_string ds))
      else map_option (\<lambda>(t, r). (c # t, r)) (toy_parse_string cs))"

text \<open>The reader, by recursive descent; the first argument bounds the nesting and the
  number of items, and the length of the text is always enough.\<close>

fun toy_parse_value :: "nat \<Rightarrow> string \<Rightarrow> (nat jsvalue \<times> string) option"
  and toy_parse_items :: "nat \<Rightarrow> string \<Rightarrow> (nat jsvalue list \<times> string) option"
  and toy_parse_members :: "nat \<Rightarrow> string \<Rightarrow> ((string \<times> nat jsvalue) list \<times> string) option"
where
  "toy_parse_value 0 s = None"
| "toy_parse_value (Suc n) s =
     (if startsWith s ''null'' then Some (JNull, drop 4 s)
      else if startsWith s ''true'' then Some (JBool True, drop 4 s)
      else if startsWith s ''false'' then Some (JBool False, drop 5 s)
      else case s of
        [] \<Rightarrow> None
      | c # cs \<Rightarrow>
          if c = CHR 0x22 then map_option (\<lambda>(t, r). (JStr t, r)) (toy_parse_string cs)
          else if c = CHR ''[''
          then (if startsWith cs '']'' then Some (JArr [], drop 1 cs)
                else map_option (\<lambda>(xs, r). (JArr xs, r)) (toy_parse_items n cs))
          else if c = CHR ''{''
          then (if startsWith cs ''}'' then Some (JObj [], drop 1 cs)
                else map_option (\<lambda>(kvs, r). (JObj kvs, r)) (toy_parse_members n cs))
          else if is_digit c
          then Some (JNum (foldl (\<lambda>a d. 10 * a + (of_char d - 48)) 0 (takeWhile is_digit s)),
                     dropWhile is_digit s)
          else None)"
| "toy_parse_items 0 s = None"
| "toy_parse_items (Suc n) s =
     (case toy_parse_value n s of
        None \<Rightarrow> None
      | Some (v, r) \<Rightarrow>
          if startsWith r '','' then map_option (\<lambda>(vs, r'). (v # vs, r')) (toy_parse_items n (drop 1 r))
          else if startsWith r '']'' then Some ([v], drop 1 r)
          else None)"
| "toy_parse_members 0 s = None"
| "toy_parse_members (Suc n) s =
     (case s of
        [] \<Rightarrow> None
      | c # cs \<Rightarrow>
          if c \<noteq> CHR 0x22 then None
          else case toy_parse_string cs of
            None \<Rightarrow> None
          | Some (k, r) \<Rightarrow>
              if \<not> startsWith r '':'' then None
              else case toy_parse_value n (drop 1 r) of
                None \<Rightarrow> None
              | Some (v, r') \<Rightarrow>
                  if startsWith r' '','' then map_option (\<lambda>(kvs, r''). ((k, v) # kvs, r''))
                                                (toy_parse_members n (drop 1 r'))
                  else if startsWith r' ''}'' then Some ([(k, v)], drop 1 r')
                  else None)"

definition toy_JSON_parse :: "string \<Rightarrow> nat jsvalue option" where
  "toy_JSON_parse s =
     (case toy_parse_value (Suc (length s)) s of
        None \<Rightarrow> None
      | Some (v, r) \<Rightarrow> if r = [] then Some v else None)"

definition toy_runtime :: "nat runtime" where
  "toy_runtime =
     \<lparr>PBKDF2 = toy_PBKDF2,
      AES_encrypt = toy_AES_encrypt,
      AES_decrypt = toy_AES_decrypt,
      Hex_parse = hex_decode,
      JSON_stringify = toy_JSON_stringify,
      JSON_parse = toy_JSON_parse,
      Number_toString = toy_decimal\<rparr>"

section \<open>Input checks of the signup form, and the states of the examples\<close>

text \<open>The form passes the five input checks that \<^verbatim>\<open>handleSignup\<close> makes before it
  looks the email up.\<close>

definition signup_form_valid :: "signup_form \<Rightarrow> bool" where
  "signup_form_valid f =
     (form_fullname f \<noteq> [] \<and> 2 \<le> length (js_trim (form_fullname f))
      \<and> isValidEmail (form_email f)
      \<and> isValid (validatePasswordStrength (form_password f))
      \<and> form_password f = form_confirm_password f
      \<and> form_terms f)"

text \<open>The signup of the scenario, a random source, a date, and the browser before and
  after that signup on the small runtime.\<close>

definition example_form :: signup_form where
  "example_form =
     \<lparr>form_fullname = ''A B'', form_email = ''a@b.com'', form_password = ''Str0ng!Pass'',
      form_confirm_password = ''Str0ng!Pass'', form_terms = True\<rparr>"

definition example_rnd :: "nat \<Rightarrow> byte" where
  "example_rnd i = of_nat (17 * i + 3)"

definition example_now :: string where
  "example_now = ''2024-01-01T00:00:00.000Z''"

definition example_record :: "nat jsvalue" where
  "example_record = signup_userData ''A B'' ''a@b.com'' example_now"

definition fresh_browser :: browser where
  "fresh_browser =
     \<lparr>localStorage = Map.empty, sessionStorage = Map.empty, cookies = [],
      notifications = [], location = None\<rparr>"

definition registered_browser :: browser where
  "registered_browser =
     handleSignup toy_runtime example_rnd example_now example_form fresh_browser"

text \<open>The same form with a confirmation that differs from the password.\<close>

definition mismatched_form :: signup_form where
  "mismatched_form = example_form\<lparr>form_confirm_password := ''Str0ng!Pas''\<rparr>"

text \<open>The browser of a logged-in user: the session key cached, the remember-me cookie
  set.\<close>

definition logged_in_browser :: browser where
  "logged_in_browser =
     (storeSessionKey ''Str0ng!Pass'' registered_browser)
       \<lparr>cookies := [(''gcash_remember'', ''a@b.com'')]\<rparr>"

text \<open>The same user with the backup configured, and a network that is down.\<close>

definition backup_browser :: browser where
  "backup_browser =
     (storeSessionKey ''Str0ng!Pass'' registered_browser)
       \<lparr>localStorage := (localStorage registered_browser)
          (''gcash_backup_enabled'' \<mapsto> ''true'', ''gcash_github_token'' \<mapsto> ''ghp_example'')\<rparr>"

definition net_down :: "request \<Rightarrow> fetch_result" where
  "net_down r = NetworkError"

text \<open>A browser that holds only a remember-me cookie and, under that user's key, a
  string that no key decrypts.\<close>

definition remembered_browser :: browser where
  "remembered_browser =
     \<lparr>localStorage = [''gcash_user_a@b.com'' \<mapsto> ''not a blob''],
      sessionStorage = Map.empty,
      cookies = [(''theme'', ''dark''), (''gcash_remember'', ''a@b.com'')],
      notifications = [], location = None\<rparr>"

section \<open>Strings, hexadecimal and the blob format\<close>

lemma js_split_no_sep: "sep \<notin> set s \<Longrightarrow> js_split sep s = [s]"
  by (induction s) auto

lemma js_split_append:
  "sep \<notin> set a \<Longrightarrow> js_split sep (a @ sep # b) = a # js_split sep b"
  by (induction a) auto

lemma length_js_split: "length (js_split sep s) = Suc (count_list s sep)"
  by (induction s) (auto split: list.splits)

lemma hex_digit_cases: "hex_digit n \<in> set ''0123456789abcdef''"
proof -
  have "n mod 16 < length ''0123456789abcdef''" by simp
  then show ?thesis unfolding hex_digit_def by (rule nth_mem)
qed

lemma hex_digit_not_colon: "hex_digit n \<noteq> CHR '':''"
  using hex_digit_cases [of n] by auto

lemma colon_notin_Hex_stringify: "CHR '':'' \<notin> set (Hex_stringify bs)"
  using hex_digit_not_colon by (fastforce simp: Hex_stringify_def)

lemma length_Hex_stringify: "length (Hex_stringify bs) = 2 * length bs"
  by (induction bs) (auto simp: Hex_stringify_def)

lemma is_hex_digit_hex_digit: "is_hex_digit (hex_digit n)"
  unfolding is_hex_digit_def by (rule hex_digit_cases)

lemma is_hex_digit_Hex_stringify: "list_all is_hex_digit (Hex_stringify bs)"
  by (induction bs) (simp_all add: Hex_stringify_def is_hex_digit_hex_digit)

lemma length_WordArray_random: "length (WordArray_random n rnd) = n"
  by (simp add: WordArray_random_def)

lemma base64_char_not_colon: "base64_char c \<Longrightarrow> c \<noteq> CHR '':''"
  by (auto simp: base64_char_def is_upper_def is_lower_def is_digit_def)

lemma colon_notin_base64: "list_all base64_char c \<Longrightarrow> CHR '':'' \<notin> set c"
  by (auto simp: list_all_iff dest: base64_char_not_colon)

lemma hex_value_hex_digit_upto: "\<forall>m \<in> set [0..<16]. hex_value (hex_digit m) = m"
  by code_simp

lemma hex_value_hex_digit: "hex_value (hex_digit n) = n mod 16"
proof -
  have "n mod 16 \<in> set [0..<16]" by simp
  then have "hex_value (hex_digit (n mod 16)) = n mod 16"
    using hex_value_hex_digit_upto by blast
  then show ?thesis by (simp add: hex_digit_def)
qed

lemma hex_decode_Hex_stringify: "hex_decode (Hex_stringify bs) = bs"
proof (induction bs)
  case Nil
  then show ?case by (simp add: Hex_stringify_def)
next
  case (Cons b bs)
  have "unat b < 256" using unsigned_less [of b] by simp
  then have "unat b div 16 < 16" by simp
  then have "(unat b div 16) mod 16 * 16 + unat b mod 16 = unat b" by simp
  then have "(of_nat ((unat b div 16) mod 16 * 16 + (unat b mod 16) mod 16) :: byte) = b"
    by simp
  with Cons show ?case
    by (simp add: Hex_stringify_def hex_value_hex_digit)
qed

section \<open>The small runtime has the properties asked of a runtime\<close>

lemma char_of_byte_of_char: "char_of_byte (byte_of_char c) = c"
proof -
  have "(of_char c :: nat) < 256" by simp
  then show ?thesis
    by (simp add: char_of_byte_def byte_of_char_def unat_of_nat)
qed

lemma Z_notin_Hex_stringify: "CHR ''Z'' \<notin> set (Hex_stringify bs)"
proof -
  have "hex_digit n \<noteq> CHR ''Z''" for n using hex_digit_cases [of n] by auto
  then show ?thesis by (fastforce simp: Hex_stringify_def)
qed

lemma base64_hex_digit: "base64_char (hex_digit n)"
  using hex_digit_cases [of n]
  by (auto simp: base64_char_def is_upper_def is_lower_def is_digit_def)

lemma base64_Hex_stringify: "list_all base64_char (Hex_stringify bs)"
  by (induction bs) (auto simp: Hex_stringify_def base64_hex_digit)

lemma toy_encrypt_succeeds: "encrypt_succeeds toy_runtime"
  by (simp add: encrypt_succeeds_def toy_runtime_def toy_AES_encrypt_def)

lemma toy_ciphertext_is_base64: "ciphertext_is_base64 toy_runtime"
  by (auto simp: ciphertext_is_base64_def toy_runtime_def toy_AES_encrypt_def
      base64_Hex_stringify base64_char_def is_upper_def)

lemma toy_decrypt_inverts_encrypt: "decrypt_inverts_encrypt toy_runtime"
proof -
  have tw: "takeWhile (\<lambda>c. c \<noteq> CHR ''Z'') (Hex_stringify a @ CHR ''Z'' # r) = Hex_stringify a"
    for a r
    using Z_notin_Hex_stringify [of a] by (subst takeWhile_append2) auto
  have dw: "dropWhile (\<lambda>c. c \<noteq> CHR ''Z'') (Hex_stringify a @ CHR ''Z'' # r) = CHR ''Z'' # r"
    for a r
    using Z_notin_Hex_stringify [of a] by (subst dropWhile_append2) auto
  show ?thesis
    by (auto simp: decrypt_inverts_encrypt_def toy_runtime_def toy_AES_encrypt_def
        toy_AES_decrypt_def tw dw hex_decode_Hex_stringify comp_def char_of_byte_of_char)
qed

lemma toy_hex_parse_inverts: "hex_parse_inverts toy_runtime"
  by (simp add: hex_parse_inverts_def toy_runtime_def hex_decode_Hex_stringify)

lemma toy_json_parse_rejects_empty: "json_parse_rejects_empty toy_runtime"
  by (simp add: json_parse_rejects_empty_def toy_runtime_def toy_JSON_parse_def startsWith_def)

lemma toy_hmac_key_zero_padded: "hmac_key_zero_padded toy_runtime"
  by (simp add: hmac_key_zero_padded_def toy_runtime_def toy_PBKDF2_def)

section \<open>The codec: what \<^verbatim>\<open>encryptData\<close> returns and how \<^verbatim>\<open>decryptData\<close> reads it\<close>

lemma encryptData_Inr:
  assumes "encryptData L rnd d K = Inr blob"
  obtains msg ct where
    "(if typeof d = ''object'' then JSON_stringify L d else Some (String_js L d)) = Some msg"
    and "AES_encrypt L msg (deriveKeyFromPassword L K None) (WordArray_random 16 rnd) rnd = Some ct"
    and "blob = Hex_stringify (WordArray_random 16 rnd) @ CHR '':'' # ct"
  using assms unfolding encryptData_def
  by (auto simp: Let_def split: option.splits if_splits)

lemma encryptData_succeeds:
  assumes "encrypt_succeeds L" and "typeof d = ''object'' \<Longrightarrow> JSON_stringify L d \<noteq> None"
  shows "\<exists>blob. encryptData L rnd d K = Inr blob"
proof -
  obtain msg where "(if typeof d = ''object'' then JSON_stringify L d
                     else Some (String_js L d)) = Some msg"
    using assms(2) by (cases "typeof d = ''object''") auto
  moreover obtain ct where "AES_encrypt L msg (deriveKeyFromPassword L K None)
                              (WordArray_random 16 rnd) rnd = Some ct"
    using assms(1) unfolding encrypt_succeeds_def by fastforce
  ultimately show ?thesis unfolding encryptData_def by simp
qed

lemma js_split_blob:
  assumes "list_all base64_char ct"
  shows "js_split CHR '':'' (Hex_stringify iv @ CHR '':'' # ct) = [Hex_stringify iv, ct]"
  using assms
  by (simp add: js_split_append colon_notin_Hex_stringify js_split_no_sep colon_notin_base64)

lemma decryptData_try_blob:
  assumes "list_all base64_char ct"
  shows "decryptData_try L (Hex_stringify iv @ CHR '':'' # ct) K =
     (case AES_decrypt L ct (deriveKeyFromPassword L K None) (Hex_parse L (Hex_stringify iv)) of
        None \<Rightarrow> Inl (Error ''Malformed UTF-8 data'')
      | Some decryptedStr \<Rightarrow>
          if decryptedStr = []
          then Inl (Error ''Decryption failed - wrong password or corrupted data'')
          else (case JSON_parse L decryptedStr of
                  Some v \<Rightarrow> Inr v
                | None \<Rightarrow> Inr (JStr decryptedStr)))"
  unfolding decryptData_try_def by (simp add: js_split_blob [OF assms] Let_def)

lemma count_colon_blob:
  assumes "list_all base64_char ct"
  shows "count_list (Hex_stringify iv @ CHR '':'' # ct) CHR '':'' = 1"
proof -
  have "length (js_split CHR '':'' (Hex_stringify iv @ CHR '':'' # ct)) = 2"
    by (simp add: js_split_blob [OF assms])
  then show ?thesis by (simp add: length_js_split)
qed

lemma decryptData_Inl: "decryptData L b K = Inl e \<Longrightarrow> e = Error ''Failed to decrypt data''"
  unfolding decryptData_def by (auto split: sum.splits)

text \<open>Under the key it was encrypted with, a blob decrypts to the text that was
  encrypted; a non-empty text comes back parsed, or as it is when JSON does not parse it.\<close>

lemma decryptData_of_encryptData:
  assumes "ciphertext_is_base64 L" and "decrypt_inverts_encrypt L" and "hex_parse_inverts L"
    and "encryptData L rnd d K = Inr blob"
    and "(if typeof d = ''object'' then JSON_stringify L d else Some (String_js L d)) = Some msg"
    and "msg \<noteq> []"
  shows "decryptData L blob K = Inr (case JSON_parse L msg of Some v \<Rightarrow> v | None \<Rightarrow> JStr msg)"
proof -
  let ?key = "deriveKeyFromPassword L K None"
  let ?iv = "WordArray_random 16 rnd"
  from assms(4) assms(5) obtain ct where
    enc: "AES_encrypt L msg ?key ?iv rnd = Some ct"
    and blob: "blob = Hex_stringify ?iv @ CHR '':'' # ct"
    by (auto elim: encryptData_Inr)
  from assms(1) enc have b64: "list_all base64_char ct"
    unfolding ciphertext_is_base64_def by blast
  from assms(2) enc have dec: "AES_decrypt L ct ?key ?iv = Some msg"
    unfolding decrypt_inverts_encrypt_def by blast
  from assms(3) have hex: "Hex_parse L (Hex_stringify ?iv) = ?iv"
    unfolding hex_parse_inverts_def by simp
  show ?thesis
    unfolding decryptData_def blob
    by (simp add: decryptData_try_blob [OF b64] hex dec assms(6) split: option.splits)
qed

text \<open>
  \<^bold>\<open>Claim C8.\<close> Every output of \<^verbatim>\<open>encryptData\<close> contains exactly one \<^verbatim>\<open>:\<close>; the part
  before it is the initialization vector in 32 hexadecimal digits, which read back as
  16 bytes; and neither part is empty. The ciphertext after the separator is what
  CryptoJS prints, so the statement rests on that being non-empty Base64.
\<close>

theorem encryptData_blob_format:
  assumes "ciphertext_is_base64 L" and "encryptData L rnd d K = Inr blob"
  shows "count_list blob CHR '':'' = 1
       \<and> length (js_split CHR '':'' blob) = 2
       \<and> length (js_split CHR '':'' blob ! 0) = 32
       \<and> list_all is_hex_digit (js_split CHR '':'' blob ! 0)
       \<and> length (hex_decode (js_split CHR '':'' blob ! 0)) = 16
       \<and> js_split CHR '':'' blob ! 0 \<noteq> []
       \<and> js_split CHR '':'' blob ! 1 \<noteq> []"
proof -
  from assms(2) obtain msg ct where
    enc: "AES_encrypt L msg (deriveKeyFromPassword L K None) (WordArray_random 16 rnd) rnd = Some ct"
    and blob: "blob = Hex_stringify (WordArray_random 16 rnd) @ CHR '':'' # ct"
    by (rule encryptData_Inr)
  from assms(1) enc have ct: "ct \<noteq> []" "list_all base64_char ct"
    unfolding ciphertext_is_base64_def by blast+
  have parts: "js_split CHR '':'' blob = [Hex_stringify (WordArray_random 16 rnd), ct]"
    unfolding blob by (rule js_split_blob [OF ct(2)])
  have len: "length (Hex_stringify (WordArray_random 16 rnd)) = 32"
    by (simp add: length_Hex_stringify length_WordArray_random)
  have "count_list blob CHR '':'' = 1"
    unfolding blob by (rule count_colon_blob [OF ct(2)])
  moreover have "length (hex_decode (Hex_stringify (WordArray_random 16 rnd))) = 16"
    by (simp add: hex_decode_Hex_stringify length_WordArray_random)
  moreover have "Hex_stringify (WordArray_random 16 rnd) \<noteq> []"
    using len by auto
  ultimately show ?thesis
    using ct(1) len by (simp add: parts is_hex_digit_Hex_stringify)
qed

lemma example_record_object: "typeof example_record = ''object''"
  by (simp add: example_record_def signup_userData_def)

lemma example_record_serializable: "JSON_serializable toy_runtime example_record"
  by code_simp

lemma toy_encryptData_example:
  "\<exists>blob. encryptData toy_runtime example_rnd example_record K = Inr blob"
proof (rule encryptData_succeeds [OF toy_encrypt_succeeds])
  show "JSON_stringify toy_runtime example_record \<noteq> None"
    using example_record_serializable unfolding JSON_serializable_def
    by (auto split: option.splits)
qed

theorem encryptData_blob_format_witness:
  "\<exists>blob. encryptData toy_runtime example_rnd example_record ''Str0ng!Pass'' = Inr blob
         \<and> count_list blob CHR '':'' = 1
         \<and> length (js_split CHR '':'' blob) = 2
         \<and> length (js_split CHR '':'' blob ! 0) = 32
         \<and> list_all is_hex_digit (js_split CHR '':'' blob ! 0)
         \<and> length (hex_decode (js_split CHR '':'' blob ! 0)) = 16
         \<and> js_split CHR '':'' blob ! 0 \<noteq> []
         \<and> js_split CHR '':'' blob ! 1 \<noteq> []"
proof -
  from toy_encryptData_example obtain blob where
    enc: "encryptData toy_runtime example_rnd example_record ''Str0ng!Pass'' = Inr blob" by blast
  from encryptData_blob_format [OF toy_ciphertext_is_base64 enc] enc
  show ?thesis by blast
qed

text \<open>
  \<^bold>\<open>Claim C1.\<close> Round trip: for every value \<open>R\<close> that is an object and that JSON
  serializes (\<^verbatim>\<open>JSON.parse(JSON.stringify(R))\<close> is \<open>R\<close>), and for every key \<open>K\<close>,
  \<^verbatim>\<open>encryptData(R, K)\<close> returns a blob and \<^verbatim>\<open>decryptData\<close> of that blob under \<open>K\<close>
  returns \<open>R\<close>.
\<close>

theorem decryptData_inverts_encryptData:
  assumes "encrypt_succeeds L" and "ciphertext_is_base64 L" and "decrypt_inverts_encrypt L"
    and "hex_parse_inverts L" and "json_parse_rejects_empty L"
    and "typeof R = ''object''" and "JSON_serializable L R"
  shows "\<exists>blob. encryptData L rnd R K = Inr blob \<and> decryptData L blob K = Inr R"
proof -
  from assms(7) obtain msg where
    str: "JSON_stringify L R = Some msg" and parse: "JSON_parse L msg = Some R"
    unfolding JSON_serializable_def by (auto split: option.splits)
  from parse assms(5) have ne: "msg \<noteq> []"
    unfolding json_parse_rejects_empty_def by auto
  from str obtain blob where enc: "encryptData L rnd R K = Inr blob"
    using encryptData_succeeds [OF assms(1), of R rnd K] by auto
  have "(if typeof R = ''object'' then JSON_stringify L R else Some (String_js L R)) = Some msg"
    using assms(6) str by simp
  from decryptData_of_encryptData [OF assms(2,3,4) enc this ne]
  have "decryptData L blob K = Inr R" by (simp add: parse)
  with enc show ?thesis by blast
qed

theorem decryptData_inverts_encryptData_witness:
  "typeof example_record = ''object''
   \<and> JSON_serializable toy_runtime example_record
   \<and> (\<exists>blob. encryptData toy_runtime example_rnd example_record ''Str0ng!Pass'' = Inr blob
             \<and> decryptData toy_runtime blob ''Str0ng!Pass'' = Inr example_record)"
  using decryptData_inverts_encryptData [OF toy_encrypt_succeeds toy_ciphertext_is_base64
      toy_decrypt_inverts_encrypt toy_hex_parse_inverts toy_json_parse_rejects_empty
      example_record_object example_record_serializable, of example_rnd "''Str0ng!Pass''"]
    example_record_object example_record_serializable
  by blast

text \<open>
  \<^bold>\<open>Claim C2\<close> says that decryption under any other key fails. The codec has no check
  of its own: on a blob of \<^verbatim>\<open>encryptData\<close> the format check passes, and \<^verbatim>\<open>decryptData\<close>
  fails exactly when CryptoJS throws or returns the empty string under the second key.
  Keys that derive the same PBKDF2 key are therefore accepted, and a key and the same
  key followed by a zero character always are such a pair.

  \<^bold>\<open>Claim C2, as amended.\<close> For every \<open>R\<close>, \<open>K1\<close> and \<open>K2\<close>,
  \<^verbatim>\<open>decryptData(encryptData(R, K1), K2)\<close> fails, always with the one error
  \<^verbatim>\<open>Failed to decrypt data\<close>, exactly when the decryption by CryptoJS of the ciphertext
  under the key derived from \<open>K2\<close> throws or yields the empty string.
\<close>

theorem decryptData_fails_iff:
  assumes "ciphertext_is_base64 L" and "encryptData L rnd R K1 = Inr blob"
  shows "\<exists>ct. blob = Hex_stringify (WordArray_random 16 rnd) @ '':'' @ ct
           \<and> (decryptData L blob K2 = Inl (Error ''Failed to decrypt data''))
             = (case AES_decrypt L ct (deriveKeyFromPassword L K2 None)
                       (Hex_parse L (Hex_stringify (WordArray_random 16 rnd))) of
                  None \<Rightarrow> True
                | Some decryptedStr \<Rightarrow> decryptedStr = [])
           \<and> (\<forall>e. decryptData L blob K2 = Inl e \<longrightarrow> e = Error ''Failed to decrypt data'')"
proof -
  from assms(2) obtain msg ct where
    enc: "AES_encrypt L msg (deriveKeyFromPassword L K1 None) (WordArray_random 16 rnd) rnd = Some ct"
    and blob: "blob = Hex_stringify (WordArray_random 16 rnd) @ CHR '':'' # ct"
    by (rule encryptData_Inr)
  from assms(1) enc have b64: "list_all base64_char ct"
    unfolding ciphertext_is_base64_def by blast
  have "(decryptData L blob K2 = Inl (Error ''Failed to decrypt data''))
        = (case AES_decrypt L ct (deriveKeyFromPassword L K2 None)
                  (Hex_parse L (Hex_stringify (WordArray_random 16 rnd))) of
             None \<Rightarrow> True
           | Some decryptedStr \<Rightarrow> decryptedStr = [])"
    unfolding decryptData_def blob
    by (simp add: decryptData_try_blob [OF b64] split: option.splits)
  then show ?thesis using blob decryptData_Inl by fastforce
qed

text \<open>On the small runtime: the blob of the example record does not decrypt under
  another password.\<close>

theorem decryptData_fails_iff_witness:
  "\<exists>blob ct. encryptData toy_runtime example_rnd example_record ''Str0ng!Pass'' = Inr blob
         \<and> blob = Hex_stringify (WordArray_random 16 example_rnd) @ '':'' @ ct
         \<and> AES_decrypt toy_runtime ct (deriveKeyFromPassword toy_runtime ''password'' None)
              (Hex_parse toy_runtime (Hex_stringify (WordArray_random 16 example_rnd))) = Some []
         \<and> decryptData toy_runtime blob ''password'' = Inl (Error ''Failed to decrypt data'')"
proof -
  from toy_encryptData_example obtain blob where
    enc: "encryptData toy_runtime example_rnd example_record ''Str0ng!Pass'' = Inr blob" by blast
  from decryptData_fails_iff [OF toy_ciphertext_is_base64 enc, of "''password''"]
  obtain ct where blob: "blob = Hex_stringify (WordArray_random 16 example_rnd) @ '':'' @ ct"
    and iff: "(decryptData toy_runtime blob ''password'' = Inl (Error ''Failed to decrypt data''))
      = (case AES_decrypt toy_runtime ct (deriveKeyFromPassword toy_runtime ''password'' None)
                (Hex_parse toy_runtime (Hex_stringify (WordArray_random 16 example_rnd))) of
           None \<Rightarrow> True | Some decryptedStr \<Rightarrow> decryptedStr = [])"
    by blast
  have "(case encryptData toy_runtime example_rnd example_record ''Str0ng!Pass'' of
           Inl e \<Rightarrow> False
         | Inr b \<Rightarrow> AES_decrypt toy_runtime (drop 33 b)
                      (deriveKeyFromPassword toy_runtime ''password'' None)
                      (Hex_parse toy_runtime (Hex_stringify (WordArray_random 16 example_rnd)))
                    = Some [])"
    by code_simp
  with enc have "AES_decrypt toy_runtime (drop 33 blob)
                      (deriveKeyFromPassword toy_runtime ''password'' None)
                      (Hex_parse toy_runtime (Hex_stringify (WordArray_random 16 example_rnd)))
                    = Some []" by simp
  moreover have "drop 33 blob = ct"
    unfolding blob by (simp add: length_Hex_stringify length_WordArray_random)
  ultimately have dec: "AES_decrypt toy_runtime ct
      (deriveKeyFromPassword toy_runtime ''password'' None)
      (Hex_parse toy_runtime (Hex_stringify (WordArray_random 16 example_rnd))) = Some []"
    by simp
  with iff have "decryptData toy_runtime blob ''password'' = Inl (Error ''Failed to decrypt data'')"
    by simp
  with enc blob dec show ?thesis by blast
qed

text \<open>Every runtime with the properties of CryptoJS accepts a key followed by a zero
  character for the key itself.\<close>

lemma decryptData_accepts_zero_padded_key:
  assumes "encrypt_succeeds L" and "ciphertext_is_base64 L" and "decrypt_inverts_encrypt L"
    and "hex_parse_inverts L" and "json_parse_rejects_empty L" and "hmac_key_zero_padded L"
    and "typeof R = ''object''" and "JSON_serializable L R" and "length K < 32"
  shows "\<exists>blob. encryptData L rnd R K = Inr blob
              \<and> decryptData L blob (K @ [CHR 0x00]) = Inr R"
proof -
  from assms(6) assms(9) have key: "deriveKeyFromPassword L (K @ [CHR 0x00]) None
      = deriveKeyFromPassword L K None"
    unfolding hmac_key_zero_padded_def deriveKeyFromPassword_def by simp
  have same: "decryptData L b (K @ [CHR 0x00]) = decryptData L b K" for b
    unfolding decryptData_def decryptData_try_def key ..
  from assms(8) obtain msg where
    str: "JSON_stringify L R = Some msg" and parse: "JSON_parse L msg = Some R"
    unfolding JSON_serializable_def by (auto split: option.splits)
  from parse assms(5) have ne: "msg \<noteq> []"
    unfolding json_parse_rejects_empty_def by auto
  from str obtain blob where enc: "encryptData L rnd R K = Inr blob"
    using encryptData_succeeds [OF assms(1), of R rnd K] by auto
  have "(if typeof R = ''object'' then JSON_stringify L R else Some (String_js L R)) = Some msg"
    using assms(7) str by simp
  from decryptData_of_encryptData [OF assms(2,3,4) enc this ne]
  have "decryptData L blob K = Inr R" by (simp add: parse)
  with enc same show ?thesis by auto
qed

text \<open>Against claim C2 as stated: the keys \<^verbatim>\<open>"a"\<close> and \<^verbatim>\<open>"a\u0000"\<close> differ, and the
  second decrypts what the first encrypted.\<close>

theorem decryptData_accepts_another_key:
  "''a'' \<noteq> [CHR ''a'', CHR 0x00]
   \<and> (case encryptData toy_runtime example_rnd example_record ''a'' of
         Inl e \<Rightarrow> False
       | Inr blob \<Rightarrow> decryptData toy_runtime blob [CHR ''a'', CHR 0x00] = Inr example_record)"
proof -
  from decryptData_accepts_zero_padded_key [OF toy_encrypt_succeeds toy_ciphertext_is_base64
      toy_decrypt_inverts_encrypt toy_hex_parse_inverts toy_json_parse_rejects_empty
      toy_hmac_key_zero_padded example_record_object example_record_serializable,
      of "''a''" example_rnd]
  show ?thesis by auto
qed

text \<open>
  \<^bold>\<open>Claim C6.\<close> When a blob has its two parts, CryptoJS decrypts the ciphertext to a
  non-empty text, and that text does not parse as JSON, \<^verbatim>\<open>decryptData\<close> returns the text
  itself, as a string; the failed parse raises nothing.
\<close>

theorem decryptData_raw_text_fallback:
  assumes "js_split CHR '':'' blob = [ivhex, ct]"
    and "AES_decrypt L ct (deriveKeyFromPassword L K None) (Hex_parse L ivhex) = Some msg"
    and "msg \<noteq> []"
    and "JSON_parse L msg = None"
  shows "decryptData L blob K = Inr (JStr msg)"
  unfolding decryptData_def decryptData_try_def using assms by simp

theorem decryptData_raw_text_fallback_witness:
  "JSON_parse toy_runtime ''hello world'' = None
   \<and> (\<exists>blob. encryptData toy_runtime example_rnd (JStr ''hello world'') ''Str0ng!Pass'' = Inr blob
        \<and> decryptData toy_runtime blob ''Str0ng!Pass'' = Inr (JStr ''hello world''))"
proof -
  let ?key = "deriveKeyFromPassword toy_runtime ''Str0ng!Pass'' None"
  let ?iv = "WordArray_random 16 example_rnd"
  have np: "JSON_parse toy_runtime ''hello world'' = None" by code_simp
  obtain blob where
    enc: "encryptData toy_runtime example_rnd (JStr ''hello world'') ''Str0ng!Pass'' = Inr blob"
    using encryptData_succeeds [OF toy_encrypt_succeeds, of "JStr ''hello world''"] by auto
  from enc obtain ct where
    ct: "AES_encrypt toy_runtime ''hello world'' ?key ?iv example_rnd = Some ct"
    and blob: "blob = Hex_stringify ?iv @ CHR '':'' # ct"
    by (rule encryptData_Inr) simp
  from toy_ciphertext_is_base64 ct have "list_all base64_char ct"
    unfolding ciphertext_is_base64_def by blast
  then have parts: "js_split CHR '':'' blob = [Hex_stringify ?iv, ct]"
    unfolding blob by (rule js_split_blob)
  from toy_decrypt_inverts_encrypt ct
  have "AES_decrypt toy_runtime ct ?key ?iv = Some ''hello world''"
    unfolding decrypt_inverts_encrypt_def by blast
  moreover have "Hex_parse toy_runtime (Hex_stringify ?iv) = ?iv"
    using toy_hex_parse_inverts unfolding hex_parse_inverts_def by simp
  ultimately have dec: "AES_decrypt toy_runtime ct ?key (Hex_parse toy_runtime (Hex_stringify ?iv))
      = Some ''hello world''" by simp
  from decryptData_raw_text_fallback [OF parts dec _ np] enc np
  show ?thesis by auto
qed

text \<open>
  \<^bold>\<open>Claim C9.\<close> A string payload that is itself a JSON text does not come back: for
  every non-empty string \<open>s\<close> that \<^verbatim>\<open>JSON.parse\<close> reads as a value \<open>v\<close> other than the
  string \<open>s\<close>, \<^verbatim>\<open>decryptData(encryptData(s, K), K)\<close> returns \<open>v\<close> and not \<open>s\<close>. The text
  \<^verbatim>\<open>true\<close>, read as the boolean, is such a string.
\<close>

theorem decryptData_parses_json_strings:
  assumes "encrypt_succeeds L" and "ciphertext_is_base64 L" and "decrypt_inverts_encrypt L"
    and "hex_parse_inverts L"
    and "s \<noteq> []" and "JSON_parse L s = Some v" and "v \<noteq> JStr s"
  shows "\<exists>blob. encryptData L rnd (JStr s) K = Inr blob
              \<and> decryptData L blob K = Inr v
              \<and> decryptData L blob K \<noteq> Inr (JStr s)"
proof -
  obtain blob where enc: "encryptData L rnd (JStr s) K = Inr blob"
    using encryptData_succeeds [OF assms(1), of "JStr s" rnd K] by auto
  have "(if typeof (JStr s) = ''object'' then JSON_stringify L (JStr s)
         else Some (String_js L (JStr s))) = Some s"
    by simp
  from decryptData_of_encryptData [OF assms(2,3,4) enc this assms(5)]
  have "decryptData L blob K = Inr v" by (simp add: assms(6))
  with enc assms(7) show ?thesis by auto
qed

theorem decryptData_parses_json_strings_witness:
  "JSON_parse toy_runtime ''true'' = Some (JBool True)
   \<and> (\<exists>blob. encryptData toy_runtime example_rnd (JStr ''true'') ''Str0ng!Pass'' = Inr blob
        \<and> decryptData toy_runtime blob ''Str0ng!Pass'' = Inr (JBool True)
        \<and> decryptData toy_runtime blob ''Str0ng!Pass'' \<noteq> Inr (JStr ''true''))"
proof -
  have p: "JSON_parse toy_runtime ''true'' = Some (JBool True)" by code_simp
  from decryptData_parses_json_strings [OF toy_encrypt_succeeds toy_ciphertext_is_base64
      toy_decrypt_inverts_encrypt toy_hex_parse_inverts _ p, of example_rnd "''Str0ng!Pass''"] p
  show ?thesis by simp
qed

section \<open>Signup, the session key and the stored record\<close>

lemma example_form_valid: "signup_form_valid example_form"
  by code_simp

lemma lower_example_email: "toLowerCase ''a@b.com'' = ''a@b.com''"
  by code_simp

lemma user_key_neq:
  "user_key u \<noteq> ''gcash_backup_gist_id''" "user_key u \<noteq> ''gcash_last_backup''"
  "user_key u \<noteq> ''gcash_logged_in''" "user_key u \<noteq> ''gcash_current_user''"
  "user_key u \<noteq> ''gcash_backup_enabled''" "user_key u \<noteq> ''gcash_github_token''"
  by (simp_all add: user_key_def)

lemma handleSignup_sessionStorage:
  "sessionStorage (handleSignup L rnd now f st) = sessionStorage st"
  unfolding handleSignup_def by (simp add: showNotification_def split: sum.splits)

lemma loadUserData_without_session_key:
  "getSessionKey st = None \<Longrightarrow> loadUserData L st = JNull"
  unfolding loadUserData_def by (simp split: option.splits)

lemma getSessionKey_storeSessionKey: "getSessionKey (storeSessionKey k st) = Some k"
  by (simp add: getSessionKey_def storeSessionKey_def)

lemma getSessionKey_clearSessionKey: "getSessionKey (clearSessionKey st) = None"
  by (simp add: getSessionKey_def clearSessionKey_def)

lemma handleSignup_success:
  assumes "signup_form_valid f"
    and "\<not> truthy (localStorage st (user_key (toLowerCase (form_email f))))"
    and "encryptData L rnd (signup_userData (form_fullname f) (form_email f) now) (form_password f)
           = Inr blob"
  shows "handleSignup L rnd now f st =
     st\<lparr>localStorage := (localStorage st)
            (user_key (toLowerCase (form_email f)) \<mapsto> blob,
             ''gcash_logged_in'' \<mapsto> ''true'',
             ''gcash_current_user'' \<mapsto> toLowerCase (form_email f)),
        notifications := notifications st
            @ [(''Account created successfully! Redirecting...'', ''success'')],
        location := Some ''dashboard.html''\<rparr>"
  using assms unfolding handleSignup_def signup_form_valid_def
  by (auto simp: showNotification_def)

lemma example_signup:
  assumes "\<not> truthy (localStorage st (user_key ''a@b.com''))"
    and "encryptData L rnd (signup_userData ''A B'' ''a@b.com'' now) ''Str0ng!Pass'' = Inr blob"
  shows "handleSignup L rnd now example_form st =
     st\<lparr>localStorage := (localStorage st)
            (''gcash_user_a@b.com'' \<mapsto> blob,
             ''gcash_logged_in'' \<mapsto> ''true'',
             ''gcash_current_user'' \<mapsto> ''a@b.com''),
        notifications := notifications st
            @ [(''Account created successfully! Redirecting...'', ''success'')],
        location := Some ''dashboard.html''\<rparr>"
proof -
  have fields: "form_fullname example_form = ''A B''" "form_email example_form = ''a@b.com''"
    "form_password example_form = ''Str0ng!Pass''"
    by (simp_all add: example_form_def)
  have uk: "user_key ''a@b.com'' = ''gcash_user_a@b.com''" by (simp add: user_key_def)
  from handleSignup_success [OF example_form_valid, of st L rnd now blob] assms
  show ?thesis by (simp add: fields lower_example_email uk)
qed

text \<open>The browser after the example signup on the small runtime.\<close>

lemma registered_browser_eq:
  "\<exists>blob. encryptData toy_runtime example_rnd example_record ''Str0ng!Pass'' = Inr blob
         \<and> blob \<noteq> []
         \<and> registered_browser =
             fresh_browser\<lparr>localStorage :=
                 [''gcash_user_a@b.com'' \<mapsto> blob, ''gcash_logged_in'' \<mapsto> ''true'',
                  ''gcash_current_user'' \<mapsto> ''a@b.com''],
               notifications := [(''Account created successfully! Redirecting...'', ''success'')],
               location := Some ''dashboard.html''\<rparr>"
proof -
  from toy_encryptData_example obtain blob where
    enc: "encryptData toy_runtime example_rnd example_record ''Str0ng!Pass'' = Inr blob" by blast
  from encryptData_Inr [OF enc] have ne: "blob \<noteq> []" by auto
  have "\<not> truthy (localStorage fresh_browser (user_key ''a@b.com''))"
    by (simp add: fresh_browser_def)
  from example_signup [OF this enc [unfolded example_record_def]]
  have "registered_browser =
             fresh_browser\<lparr>localStorage :=
                 [''gcash_user_a@b.com'' \<mapsto> blob, ''gcash_logged_in'' \<mapsto> ''true'',
                  ''gcash_current_user'' \<mapsto> ''a@b.com''],
               notifications := [(''Account created successfully! Redirecting...'', ''success'')],
               location := Some ''dashboard.html''\<rparr>"
    unfolding registered_browser_def by (simp add: fresh_browser_def)
  with enc ne show ?thesis by blast
qed

text \<open>
  The scenario of signup and load, with the step that \<^verbatim>\<open>handleSignup\<close> leaves out:
  after a successful signup with email \<^verbatim>\<open>a@b.com\<close>, password \<^verbatim>\<open>Str0ng!Pass\<close> and full
  name \<^verbatim>\<open>A B\<close>, the store holds the encrypted blob at key \<^verbatim>\<open>gcash_user_a@b.com\<close> (and,
  besides what it held, only the logged-in flag and the current-user pointer), and once
  \<^verbatim>\<open>storeSessionKey\<close> has cached the same password, \<^verbatim>\<open>loadUserData()\<close> returns a record
  whose \<^verbatim>\<open>fullname\<close> is \<^verbatim>\<open>A B\<close> and whose \<^verbatim>\<open>accounts\<close>, \<^verbatim>\<open>transactions\<close> and
  \<^verbatim>\<open>budgets\<close> are empty.
\<close>

theorem signup_then_loadUserData:
  assumes "encrypt_succeeds L" and "ciphertext_is_base64 L" and "decrypt_inverts_encrypt L"
    and "hex_parse_inverts L" and "json_parse_rejects_empty L"
    and "JSON_serializable L (signup_userData ''A B'' ''a@b.com'' now)"
    and "\<not> truthy (localStorage st (user_key ''a@b.com''))"
  shows "\<exists>blob.
           encryptData L rnd (signup_userData ''A B'' ''a@b.com'' now) ''Str0ng!Pass'' = Inr blob
         \<and> localStorage (handleSignup L rnd now example_form st) ''gcash_user_a@b.com'' = Some blob
         \<and> dom (localStorage (handleSignup L rnd now example_form st))
             = dom (localStorage st)
               \<union> {''gcash_user_a@b.com'', ''gcash_logged_in'', ''gcash_current_user''}
         \<and> prop_of (loadUserData L (storeSessionKey ''Str0ng!Pass''
                       (handleSignup L rnd now example_form st))) ''fullname''
             = Some (JStr ''A B'')
         \<and> prop_of (loadUserData L (storeSessionKey ''Str0ng!Pass''
                       (handleSignup L rnd now example_form st))) ''accounts''
             = Some (JArr [])
         \<and> prop_of (loadUserData L (storeSessionKey ''Str0ng!Pass''
                       (handleSignup L rnd now example_form st))) ''transactions''
             = Some (JArr [])
         \<and> prop_of (loadUserData L (storeSessionKey ''Str0ng!Pass''
                       (handleSignup L rnd now example_form st))) ''budgets''
             = Some (JArr [])"
proof -
  let ?R = "signup_userData ''A B'' ''a@b.com'' now :: 'a jsvalue"
  have obj: "typeof ?R = ''object''" by (simp add: signup_userData_def)
  from assms(6) obtain msg where
    str: "JSON_stringify L ?R = Some msg" and parse: "JSON_parse L msg = Some ?R"
    unfolding JSON_serializable_def by (auto split: option.splits)
  from parse assms(5) have msg: "msg \<noteq> []"
    unfolding json_parse_rejects_empty_def by auto
  from str obtain blob where enc: "encryptData L rnd ?R ''Str0ng!Pass'' = Inr blob"
    using encryptData_succeeds [OF assms(1), of ?R rnd "''Str0ng!Pass''"] by auto
  have "(if typeof ?R = ''object'' then JSON_stringify L ?R else Some (String_js L ?R)) = Some msg"
    using obj str by simp
  from decryptData_of_encryptData [OF assms(2,3,4) enc this msg]
  have dec: "decryptData L blob ''Str0ng!Pass'' = Inr ?R" by (simp add: parse)
  from encryptData_Inr [OF enc] have ne: "blob \<noteq> []" by auto
  note st1 = example_signup [OF assms(7) enc]
  have load: "loadUserData L (storeSessionKey ''Str0ng!Pass''
                (handleSignup L rnd now example_form st)) = ?R"
    unfolding st1 loadUserData_def storeSessionKey_def getSessionKey_def
    by (simp add: user_key_def ne dec)
  have "localStorage (handleSignup L rnd now example_form st) ''gcash_user_a@b.com'' = Some blob"
    unfolding st1 by simp
  moreover have "dom (localStorage (handleSignup L rnd now example_form st))
             = dom (localStorage st)
               \<union> {''gcash_user_a@b.com'', ''gcash_logged_in'', ''gcash_current_user''}"
    unfolding st1 by auto
  ultimately show ?thesis
    using enc unfolding load by (auto simp: signup_userData_def)
qed

theorem signup_then_loadUserData_witness:
  "\<exists>blob.
     encryptData toy_runtime example_rnd (signup_userData ''A B'' ''a@b.com'' example_now)
       ''Str0ng!Pass'' = Inr blob
   \<and> localStorage registered_browser ''gcash_user_a@b.com'' = Some blob
   \<and> dom (localStorage registered_browser)
        = {''gcash_user_a@b.com'', ''gcash_logged_in'', ''gcash_current_user''}
   \<and> prop_of (loadUserData toy_runtime (storeSessionKey ''Str0ng!Pass'' registered_browser))
        ''fullname'' = Some (JStr ''A B'')
   \<and> prop_of (loadUserData toy_runtime (storeSessionKey ''Str0ng!Pass'' registered_browser))
        ''accounts'' = Some (JArr [])
   \<and> prop_of (loadUserData toy_runtime (storeSessionKey ''Str0ng!Pass'' registered_browser))
        ''transactions'' = Some (JArr [])
   \<and> prop_of (loadUserData toy_runtime (storeSessionKey ''Str0ng!Pass'' registered_browser))
        ''budgets'' = Some (JArr [])"
proof -
  have ser: "JSON_serializable toy_runtime (signup_userData ''A B'' ''a@b.com'' example_now)"
    using example_record_serializable by (simp add: example_record_def)
  have fresh: "\<not> truthy (localStorage fresh_browser (user_key ''a@b.com''))"
    by (simp add: fresh_browser_def)
  have "dom (localStorage fresh_browser) = {}" by (simp add: fresh_browser_def)
  with signup_then_loadUserData [OF toy_encrypt_succeeds toy_ciphertext_is_base64
      toy_decrypt_inverts_encrypt toy_hex_parse_inverts toy_json_parse_rejects_empty
      ser fresh, of example_rnd]
  show ?thesis unfolding registered_browser_def by simp
qed

text \<open>
  \<^bold>\<open>Claim C3.\<close> After a successful signup with email \<^verbatim>\<open>a@b.com\<close>, password
  \<^verbatim>\<open>Str0ng!Pass\<close> and full name \<^verbatim>\<open>A B\<close>, the store holds one encrypted blob at key
  \<^verbatim>\<open>gcash_user_a@b.com\<close>, and a following \<^verbatim>\<open>loadUserData()\<close> under the same password
  returns the record with \<^verbatim>\<open>fullname\<close> \<^verbatim>\<open>A B\<close> and empty lists. The code does not do
  this. \<^verbatim>\<open>loadUserData\<close> decrypts with the cached session key, and \<^verbatim>\<open>handleSignup\<close>
  never calls \<^verbatim>\<open>storeSessionKey\<close>, the function that \<^verbatim>\<open>encryption.js\<close> exports for
  caching it. At the scenario's own input, in a browser that had no session key: after
  the signup the blob is there, the session key is not, and \<^verbatim>\<open>loadUserData\<close> returns
  \<^verbatim>\<open>null\<close>.
\<close>

theorem loadUserData_after_signup_is_null:
  "localStorage registered_browser ''gcash_user_a@b.com'' \<noteq> None
   \<and> getSessionKey registered_browser = None
   \<and> loadUserData toy_runtime registered_browser = JNull"
proof -
  have "getSessionKey registered_browser = None"
    unfolding registered_browser_def getSessionKey_def
    by (simp add: handleSignup_sessionStorage fresh_browser_def)
  moreover from this have "loadUserData toy_runtime registered_browser = JNull"
    by (rule loadUserData_without_session_key)
  moreover have "localStorage registered_browser ''gcash_user_a@b.com'' \<noteq> None"
  proof -
    from registered_browser_eq obtain blob where
      eq: "registered_browser =
             fresh_browser\<lparr>localStorage :=
                 [''gcash_user_a@b.com'' \<mapsto> blob, ''gcash_logged_in'' \<mapsto> ''true'',
                  ''gcash_current_user'' \<mapsto> ''a@b.com''],
               notifications := [(''Account created successfully! Redirecting...'', ''success'')],
               location := Some ''dashboard.html''\<rparr>"
      by blast
    show ?thesis by (subst eq) simp
  qed
  ultimately show ?thesis by simp
qed

text \<open>
  \<^bold>\<open>Claim C7\<close> says that a second signup with a registered email fails with the message
  that the email is already registered. \<^verbatim>\<open>handleSignup\<close> looks the email up only after
  its five input checks, so a second attempt that fails one of them is answered with
  that check's message; the stored record is untouched in every case.

  \<^bold>\<open>Claim C7, as amended.\<close> For every email that already has a stored record, a second
  signup attempt with that email never changes the store, the session key or the page,
  and when its form passes the input checks (name, email format, password strength,
  matching confirmation, accepted terms) it fails with the message
  \<^verbatim>\<open>This email is already registered\<close>.
\<close>

theorem handleSignup_already_registered:
  assumes "localStorage st (user_key (toLowerCase (form_email f))) = Some blob"
    and "blob \<noteq> []"
  shows "localStorage (handleSignup L rnd now f st) = localStorage st
       \<and> sessionStorage (handleSignup L rnd now f st) = sessionStorage st
       \<and> location (handleSignup L rnd now f st) = location st
       \<and> (signup_form_valid f \<longrightarrow>
            notifications (handleSignup L rnd now f st)
              = notifications st @ [(''This email is already registered'', ''error'')])"
  unfolding handleSignup_def signup_form_valid_def using assms
  by (auto simp: showNotification_def)

lemma registered_browser_record:
  "\<exists>blob. localStorage registered_browser (user_key ''a@b.com'') = Some blob \<and> blob \<noteq> []"
proof -
  from registered_browser_eq obtain blob where ne: "blob \<noteq> []" and
    eq: "registered_browser =
           fresh_browser\<lparr>localStorage :=
               [''gcash_user_a@b.com'' \<mapsto> blob, ''gcash_logged_in'' \<mapsto> ''true'',
                ''gcash_current_user'' \<mapsto> ''a@b.com''],
             notifications := [(''Account created successfully! Redirecting...'', ''success'')],
             location := Some ''dashboard.html''\<rparr>"
    by blast
  have "localStorage registered_browser (user_key ''a@b.com'') = Some blob"
    by (subst eq) (simp add: user_key_def)
  with ne show ?thesis by blast
qed

text \<open>The example signup, submitted a second time.\<close>

theorem handleSignup_already_registered_witness:
  "signup_form_valid example_form
   \<and> localStorage (handleSignup toy_runtime example_rnd example_now example_form registered_browser)
       = localStorage registered_browser
   \<and> location (handleSignup toy_runtime example_rnd example_now example_form registered_browser)
       = location registered_browser
   \<and> notifications (handleSignup toy_runtime example_rnd example_now example_form
         registered_browser)
       = notifications registered_browser @ [(''This email is already registered'', ''error'')]"
proof -
  from registered_browser_record obtain blob where
    st: "localStorage registered_browser (user_key (toLowerCase (form_email example_form)))
           = Some blob"
    and ne: "blob \<noteq> []" by (auto simp: example_form_def lower_example_email)
  from handleSignup_already_registered [OF st ne, of toy_runtime example_rnd example_now]
    example_form_valid
  show ?thesis by simp
qed

text \<open>Against claim C7 as stated: a second attempt with a confirmation that does not
  match. The email is registered, and the message is about the passwords.\<close>

theorem handleSignup_reports_mismatch_first:
  "form_email mismatched_form = ''a@b.com''
   \<and> localStorage registered_browser (user_key ''a@b.com'') \<noteq> None
   \<and> notifications (handleSignup toy_runtime example_rnd example_now mismatched_form
         registered_browser)
       = notifications registered_browser @ [(''Passwords do not match'', ''error'')]"
proof -
  have "form_email mismatched_form = ''a@b.com''"
    by (simp add: mismatched_form_def example_form_def)
  moreover have "localStorage registered_browser (user_key ''a@b.com'') \<noteq> None"
    using registered_browser_record by auto
  moreover have "handleSignup toy_runtime example_rnd example_now mismatched_form registered_browser
      = showNotification ''Passwords do not match'' ''error'' registered_browser"
  proof -
    have "signup_form_valid example_form" by (rule example_form_valid)
    then show ?thesis
      unfolding handleSignup_def signup_form_valid_def
      by (simp add: mismatched_form_def example_form_def)
  qed
  ultimately show ?thesis by (simp add: showNotification_def)
qed

section \<open>Logout and the remember-me cookie\<close>

text \<open>Three of the four pieces of session state that logout is to clear: in every state,
  \<^verbatim>\<open>handleLogout\<close> removes the logged-in flag and the current-user pointer and expires
  the remember-me cookie.\<close>

theorem handleLogout_clears:
  "localStorage (handleLogout now st) ''gcash_logged_in'' = None
   \<and> localStorage (handleLogout now st) ''gcash_current_user'' = None
   \<and> map_of (cookies (handleLogout now st)) ''gcash_remember'' = None"
  by (simp add: handleLogout_def assign_cookie_def showNotification_def Let_def
      AList.delete_conv')

text \<open>
  \<^bold>\<open>Claim C4.\<close> In every state, logout clears the logged-in flag, the current-user
  pointer, the cached session key and the remember-me cookie. The code misses the third:
  \<^verbatim>\<open>handleLogout\<close> never calls \<^verbatim>\<open>clearSessionKey\<close>, the function that \<^verbatim>\<open>encryption.js\<close>
  exports for clearing the key, and does not touch the session storage. In a logged-in
  browser with the session key cached, the key is still cached after logout.
\<close>

theorem handleLogout_keeps_session_key:
  "getSessionKey logged_in_browser = Some ''Str0ng!Pass''
   \<and> getSessionKey (handleLogout 1700000000000 logged_in_browser) = Some ''Str0ng!Pass''"
  by (simp add: handleLogout_def assign_cookie_def showNotification_def Let_def
      getSessionKey_def logged_in_browser_def storeSessionKey_def)

lemma checkRememberMeCookie_loop_found:
  assumes "c \<in> set cs"
    and "js_trim c = ''gcash_remember='' @ e"
    and "e \<noteq> []" and "truthy (localStorage st (user_key e))"
    and "\<forall>c' \<in> set cs. startsWith (js_trim c') ''gcash_remember=''
           \<longrightarrow> js_trim c' = ''gcash_remember='' @ e"
  shows "checkRememberMeCookie_loop cs st =
     (True, st\<lparr>localStorage := (localStorage st)(''gcash_logged_in'' \<mapsto> ''true'',
                                                ''gcash_current_user'' \<mapsto> e)\<rparr>)"
  using assms
proof (induction cs)
  case Nil
  then show ?case by simp
next
  case (Cons x xs)
  show ?case
  proof (cases "startsWith (js_trim x) ''gcash_remember=''")
    case True
    with Cons.prems(5) have "js_trim x = ''gcash_remember='' @ e" by simp
    with Cons.prems(3,4) show ?thesis by (simp add: startsWith_def fun_upd_def)
  next
    case False
    with Cons.prems(1,2) have "c \<in> set xs" by (auto simp: startsWith_def)
    with Cons.IH Cons.prems False show ?thesis by simp
  qed
qed

text \<open>
  \<^bold>\<open>Claim C10.\<close> When the \<^verbatim>\<open>gcash_remember\<close> cookie of \<^verbatim>\<open>document.cookie\<close> names an
  email under whose key the store holds a non-empty string, \<^verbatim>\<open>checkRememberMeCookie\<close>
  returns \<^verbatim>\<open>true\<close> and sets \<^verbatim>\<open>gcash_logged_in\<close> to \<^verbatim>\<open>true\<close> and \<^verbatim>\<open>gcash_current_user\<close>
  to that email. Nothing else changes: the session key cache is as it was. The function
  takes no password and no runtime, and the stored string is any string: nothing is
  decrypted.
\<close>

theorem checkRememberMeCookie_logs_in:
  assumes "c \<in> set (js_split CHR '';'' (document_cookie st))"
    and "js_trim c = ''gcash_remember='' @ e"
    and "e \<noteq> []" and "localStorage st (user_key e) = Some blob" and "blob \<noteq> []"
    and "\<forall>c' \<in> set (js_split CHR '';'' (document_cookie st)).
           startsWith (js_trim c') ''gcash_remember='' \<longrightarrow> js_trim c' = ''gcash_remember='' @ e"
  shows "checkRememberMeCookie st =
           (True, st\<lparr>localStorage := (localStorage st)(''gcash_logged_in'' \<mapsto> ''true'',
                                                      ''gcash_current_user'' \<mapsto> e)\<rparr>)
       \<and> sessionStorage (snd (checkRememberMeCookie st)) = sessionStorage st"
proof -
  have "truthy (localStorage st (user_key e))" using assms(4,5) by simp
  from checkRememberMeCookie_loop_found [OF assms(1,2,3) this assms(6)]
  show ?thesis unfolding checkRememberMeCookie_def by simp
qed

theorem checkRememberMeCookie_logs_in_witness:
  "document_cookie remembered_browser = ''theme=dark; gcash_remember=a@b.com''
   \<and> getSessionKey remembered_browser = None
   \<and> checkRememberMeCookie remembered_browser
       = (True, remembered_browser\<lparr>localStorage :=
                  (localStorage remembered_browser)(''gcash_logged_in'' \<mapsto> ''true'',
                                                   ''gcash_current_user'' \<mapsto> ''a@b.com'')\<rparr>)
   \<and> getSessionKey (snd (checkRememberMeCookie remembered_browser)) = None"
proof -
  have dc: "document_cookie remembered_browser = ''theme=dark; gcash_remember=a@b.com''"
    by code_simp
  have parts: "js_split CHR '';'' ''theme=dark; gcash_remember=a@b.com''
                 = [''theme=dark'', '' gcash_remember=a@b.com'']"
    by code_simp
  have t1: "js_trim '' gcash_remember=a@b.com'' = ''gcash_remember='' @ ''a@b.com''"
    by code_simp
  have t2: "js_trim ''theme=dark'' = ''theme=dark''" by code_simp
  have mem: "'' gcash_remember=a@b.com''
               \<in> set (js_split CHR '';'' (document_cookie remembered_browser))"
    unfolding dc parts by simp
  have only: "\<forall>c' \<in> set (js_split CHR '';'' (document_cookie remembered_browser)).
           startsWith (js_trim c') ''gcash_remember=''
             \<longrightarrow> js_trim c' = ''gcash_remember='' @ ''a@b.com''"
    unfolding dc parts by (simp add: t1 t2 startsWith_def)
  have rec: "localStorage remembered_browser (user_key ''a@b.com'') = Some ''not a blob''"
    by (simp add: remembered_browser_def user_key_def)
  have sk: "getSessionKey remembered_browser = None"
    by (simp add: remembered_browser_def getSessionKey_def)
  from checkRememberMeCookie_logs_in [OF mem t1 _ rec _ only] dc sk
  show ?thesis by (simp add: getSessionKey_def)
qed

section \<open>Saving and the backup\<close>

lemma backupUserData_keeps_user_key:
  "localStorage (snd (backupUserData L net now e st)) (user_key u) = localStorage st (user_key u)"
  unfolding backupUserData_def
  by (simp add: user_key_neq split: option.splits fetch_result.splits)

lemma backupUserData_network_error:
  "fst (backupUserData L net_down now e st) = False"
  unfolding backupUserData_def net_down_def
  by (simp split: option.splits)

text \<open>
  \<^bold>\<open>Claim C5.\<close> In every state with a current user and a cached session key, when
  encryption under that key yields a blob, \<^verbatim>\<open>saveUserData\<close> returns \<^verbatim>\<open>true\<close> and the
  store holds the blob under the user's key afterwards, whatever the network answers
  and wherever \<^verbatim>\<open>backupUserData\<close> fails.
\<close>

theorem saveUserData_survives_backup_failure:
  assumes "localStorage st ''gcash_current_user'' = Some user" and "user \<noteq> []"
    and "getSessionKey st = Some key" and "key \<noteq> []"
    and "encryptData L rnd userData key = Inr blob"
  shows "fst (saveUserData L net rnd now userData st) = True
       \<and> localStorage (snd (saveUserData L net rnd now userData st)) (user_key user) = Some blob"
  unfolding saveUserData_def using assms
  by (simp add: Let_def backupUserData_keeps_user_key)

text \<open>The backup configured and the network down: the backup reports failure, the save
  reports success.\<close>

theorem saveUserData_survives_backup_failure_witness:
  "localStorage backup_browser ''gcash_backup_enabled'' = Some ''true''
   \<and> fst (backupUserData toy_runtime net_down example_now ''00:AA'' backup_browser) = False
   \<and> (\<exists>blob. encryptData toy_runtime example_rnd example_record ''Str0ng!Pass'' = Inr blob
        \<and> fst (saveUserData toy_runtime net_down example_rnd example_now example_record
                  backup_browser) = True
        \<and> localStorage (snd (saveUserData toy_runtime net_down example_rnd example_now
                   example_record backup_browser)) (user_key ''a@b.com'') = Some blob)"
proof -
  from registered_browser_eq obtain blob where
    enc: "encryptData toy_runtime example_rnd example_record ''Str0ng!Pass'' = Inr blob" and
    eq: "registered_browser =
           fresh_browser\<lparr>localStorage :=
               [''gcash_user_a@b.com'' \<mapsto> blob, ''gcash_logged_in'' \<mapsto> ''true'',
                ''gcash_current_user'' \<mapsto> ''a@b.com''],
             notifications := [(''Account created successfully! Redirecting...'', ''success'')],
             location := Some ''dashboard.html''\<rparr>"
    by blast
  have user: "localStorage backup_browser ''gcash_current_user'' = Some ''a@b.com''"
    unfolding backup_browser_def by (subst eq) (simp add: storeSessionKey_def)
  have key: "getSessionKey backup_browser = Some ''Str0ng!Pass''"
    by (simp add: backup_browser_def getSessionKey_def storeSessionKey_def)
  have enabled: "localStorage backup_browser ''gcash_backup_enabled'' = Some ''true''"
    by (simp add: backup_browser_def storeSessionKey_def)
  from saveUserData_survives_backup_failure [OF user _ key _ enc, of net_down example_now]
    enc enabled backupUserData_network_error [of toy_runtime example_now "''00:AA''" backup_browser]
  show ?thesis by auto
qed

end
